theory Spec2Isabelle
  imports Complex_Main
begin

section \<open>AnomCAT: the simulated portfolio growth engine and its persistence\<close>

text \<open>
  The repository holds two variants of the same engine in \<^verbatim>\<open>app.js\<close>: the dashboard
  object \<^verbatim>\<open>AnomCAT\<close> of version 1.01 (\<^verbatim>\<open>AnomCAT.deposit\<close>, \<^verbatim>\<open>AnomCAT.addTransaction\<close>,
  \<^verbatim>\<open>AnomCAT.updatePortfolio\<close>, \<^verbatim>\<open>AnomCAT.saveToStorage\<close>, \<^verbatim>\<open>AnomCAT.loadFromStorage\<close>)
  and the older \<^verbatim>\<open>class AnomCAT\<close> (\<^verbatim>\<open>handleDeposit\<close>, \<^verbatim>\<open>startBot\<close>, \<^verbatim>\<open>simulateTrade\<close>,
  \<^verbatim>\<open>saveToStorage\<close>, \<^verbatim>\<open>loadFromStorage\<close>). Both are embedded; the names of the class
  variant carry the suffix \<open>_cls\<close> where they would clash.

  Conventions of the embedding.
  \<^item> A JavaScript number is a \<^typ>\<open>real\<close>: finite doubles are read as the reals they
    denote, and the arithmetic of the engine is exact, without rounding. A number whose
    magnitude has reached the bound at which the doubles overflow is the \<^verbatim>\<open>Infinity\<close> (or
    \<^verbatim>\<open>-Infinity\<close>) the code holds; the persistence code, which treats it differently
    from a finite number, tests for it. \<^verbatim>\<open>NaN\<close> is kept where the source can observe it:
    the amount handed to a deposit and the \<^verbatim>\<open>parseInt\<close> result of the class variant.
  \<^item> \<^verbatim>\<open>Date.now()\<close> is an integer number of milliseconds; every handler invocation
    receives one reading \<open>now\<close>.
  \<^item> Each call of \<^verbatim>\<open>Math.random()\<close> is a parameter \<open>u\<^sub>i\<close>, in the order of the calls.
  \<^item> \<^verbatim>\<open>Math.pow(b, e)\<close> is \<open>b powr e\<close>; the two agree for a positive base, and the
    base of the engine is \<open>1 + monthlyReturn\<close>.
  \<^item> \<^verbatim>\<open>this\<close> and \<^verbatim>\<open>localStorage\<close> are passed and returned explicitly. The DOM
    (display refresh, chart, input field) carries no engine state and is left out.
  \<^item> \<^verbatim>\<open>localStorage.getItem\<close> and \<^verbatim>\<open>setItem\<close> succeed; the exception of the
    persistence code that is modelled is the SyntaxError of \<^verbatim>\<open>JSON.parse\<close>. The store
    is restricted to the three keys a variant uses, each holding a value of its own shape.
\<close>

subsection \<open>Numbers and stored strings\<close>

datatype 'a number = NaN | Num 'a

text \<open>
  Round-to-nearest maps a result of magnitude \<open>2\<^sup>1\<^sup>0\<^sup>2\<^sup>4 - 2\<^sup>9\<^sup>7\<^sup>0\<close> or more to \<^verbatim>\<open>Infinity\<close>
  or \<^verbatim>\<open>-Infinity\<close>; \<^verbatim>\<open>Number.MAX_VALUE\<close> lies just below. \<^verbatim>\<open>JSON.stringify\<close> writes a
  finite number as a literal that \<^verbatim>\<open>JSON.parse\<close> reads back as that number, and writes
  \<^verbatim>\<open>null\<close> for an infinite one. A number field of a parsed JSON value is therefore a
  \<^typ>\<open>real option\<close>, with \<open>None\<close> for \<^verbatim>\<open>null\<close>.
\<close>

definition OVERFLOW :: real where
  "OVERFLOW = 2 ^ 1024 - 2 ^ 970"

definition isFinite :: "real \<Rightarrow> bool" where
  "isFinite x \<longleftrightarrow> \<bar>x\<bar> < OVERFLOW"

definition JSON_number :: "real \<Rightarrow> real option" where
  "JSON_number x = (if isFinite x then Some x else None)"

text \<open>
  A string held by \<^verbatim>\<open>localStorage\<close>, seen through what the code can do with it:
  \<open>Empty\<close> is the empty string (falsy); \<open>Text x\<close> is a string that \<^verbatim>\<open>JSON.parse\<close>,
  respectively \<^verbatim>\<open>parseInt\<close>, reads as the value \<open>x\<close>, as \<^verbatim>\<open>'true'\<close> is for \<open>True\<close>;
  \<open>Garbage\<close> is a non-empty string that renders no value of the expected type:
  \<^verbatim>\<open>JSON.parse\<close> throws a SyntaxError on it, \<^verbatim>\<open>parseInt\<close> returns \<^verbatim>\<open>NaN\<close>, and it differs
  from \<^verbatim>\<open>'true'\<close> and \<^verbatim>\<open>'false'\<close>.
\<close>

datatype 'a stored = Empty | Garbage | Text 'a

subsection \<open>Data model of version 1.01\<close>

record Snapshot =
  pt_time :: int
  pt_value :: real

record TradeRecord =
  tx_id :: int
  tx_time :: int
  tx_type :: string
  tx_amount :: real
  tx_profit :: "bool option"

record Portfolio =
  btcBalance :: real
  eurBalance :: real
  initialBtc :: real
  history :: "Snapshot list"
  trades :: "TradeRecord list"

record BotState =
  active :: bool
  monthlyReturn :: real
  lastUpdate :: int

record AnomCAT =
  currency :: string
  portfolio :: Portfolio
  bot :: BotState

text \<open>
  The same objects as JavaScript values, in which a number field may hold \<^verbatim>\<open>null\<close>: what
  \<^verbatim>\<open>JSON.parse\<close> returns and \<open>loadFromStorage\<close> assigns to \<^verbatim>\<open>this\<close>. Time stamps are
  readings of \<^verbatim>\<open>Date.now()\<close>, integers far inside the range of the doubles.
\<close>

record Snapshot_js =
  js_pt_time :: int
  js_pt_value :: "real option"

record TradeRecord_js =
  js_tx_id :: int
  js_tx_time :: int
  js_tx_type :: string
  js_tx_amount :: "real option"
  js_tx_profit :: "bool option"

record Portfolio_js =
  js_btcBalance :: "real option"
  js_eurBalance :: "real option"
  js_initialBtc :: "real option"
  js_history :: "Snapshot_js list"
  js_trades :: "TradeRecord_js list"

record BotState_js =
  js_active :: bool
  js_monthlyReturn :: "real option"
  js_lastUpdate :: int


record localStorage =
  anomcat_portfolio :: "Portfolio_js stored option"
  anomcat_bot :: "BotState_js stored option"
  anomcat_currency :: "string option"

type_synonym world = "AnomCAT \<times> localStorage"

definition DAYS_PER_MONTH :: real where
  "DAYS_PER_MONTH = 30.436875"

definition SATOSHI_THRESHOLD :: real where
  "SATOSHI_THRESHOLD = 0.00000001"

definition DEFAULT_BTC_EUR_RATE :: real where
  "DEFAULT_BTC_EUR_RATE = 45000"

definition btcToEurRate :: real where
  "btcToEurRate = DEFAULT_BTC_EUR_RATE"

definition btcToEur :: "real \<Rightarrow> real" where
  "btcToEur btcValue = btcValue * btcToEurRate"

text \<open>The object literal \<^verbatim>\<open>AnomCAT\<close>, created at time \<open>t0\<close>, and an empty store.\<close>

definition initial_state :: "int \<Rightarrow> AnomCAT" where
  "initial_state t0 =
     \<lparr>currency = ''BTC'',
      portfolio = \<lparr>btcBalance = 0, eurBalance = 0, initialBtc = 0, history = [], trades = []\<rparr>,
      bot = \<lparr>active = False, monthlyReturn = 0.013, lastUpdate = t0\<rparr>\<rparr>"

definition empty_storage :: localStorage where
  "empty_storage = \<lparr>anomcat_portfolio = None, anomcat_bot = None, anomcat_currency = None\<rparr>"

subsection \<open>Persistence of version 1.01\<close>

text \<open>
  An object of the engine as a JavaScript value, with each number field passed through
  \<open>f\<close>: through \<open>Some\<close> for the object as it is in memory (\<open>val_\<close>), through
  \<open>JSON_number\<close> for the value that \<^verbatim>\<open>JSON.parse\<close> reads from the text
  \<^verbatim>\<open>JSON.stringify\<close> writes for it (\<open>JSON_\<close>).
\<close>

definition conv_Snapshot :: "(real \<Rightarrow> real option) \<Rightarrow> Snapshot \<Rightarrow> Snapshot_js" where
  "conv_Snapshot f h = \<lparr>js_pt_time = pt_time h, js_pt_value = f (pt_value h)\<rparr>"

definition conv_TradeRecord :: "(real \<Rightarrow> real option) \<Rightarrow> TradeRecord \<Rightarrow> TradeRecord_js" where
  "conv_TradeRecord f t =
     \<lparr>js_tx_id = tx_id t, js_tx_time = tx_time t, js_tx_type = tx_type t,
      js_tx_amount = f (tx_amount t), js_tx_profit = tx_profit t\<rparr>"

definition conv_Portfolio :: "(real \<Rightarrow> real option) \<Rightarrow> Portfolio \<Rightarrow> Portfolio_js" where
  "conv_Portfolio f p =
     \<lparr>js_btcBalance = f (btcBalance p), js_eurBalance = f (eurBalance p),
      js_initialBtc = f (initialBtc p), js_history = map (conv_Snapshot f) (history p),
      js_trades = map (conv_TradeRecord f) (trades p)\<rparr>"

definition conv_BotState :: "(real \<Rightarrow> real option) \<Rightarrow> BotState \<Rightarrow> BotState_js" where
  "conv_BotState f b =
     \<lparr>js_active = active b, js_monthlyReturn = f (monthlyReturn b),
      js_lastUpdate = lastUpdate b\<rparr>"




definition JSON_Portfolio :: "Portfolio \<Rightarrow> Portfolio_js" where
  "JSON_Portfolio = conv_Portfolio JSON_number"

definition JSON_BotState :: "BotState \<Rightarrow> BotState_js" where
  "JSON_BotState = conv_BotState JSON_number"



definition saveToStorage :: "AnomCAT \<Rightarrow> localStorage \<Rightarrow> localStorage" where
  "saveToStorage s st =
     st\<lparr>anomcat_portfolio := Some (Text (JSON_Portfolio (portfolio s))),
        anomcat_bot := Some (Text (JSON_BotState (bot s))),
        anomcat_currency := Some (currency s)\<rparr>"






definition clearStorage :: "int \<Rightarrow> world \<Rightarrow> world" where
  "clearStorage now w =
     (initial_state now,
      (snd w)\<lparr>anomcat_portfolio := None, anomcat_bot := None, anomcat_currency := None\<rparr>)"


subsection \<open>Growth engine of version 1.01\<close>

text \<open>
  \<open>u\<close> is the value \<^verbatim>\<open>Math.random()\<close> returns when \<open>addTransaction\<close> calls it, which it
  does for the type \<^verbatim>\<open>'trade'\<close> only.
\<close>

definition addTransaction :: "string \<Rightarrow> real \<Rightarrow> int \<Rightarrow> real \<Rightarrow> world \<Rightarrow> world" where
  "addTransaction type amount now u w =
     (let s = fst w;
          transaction = \<lparr>tx_id = now, tx_time = now, tx_type = type, tx_amount = amount,
                         tx_profit = (if type = ''trade'' then Some (u > 0.4) else None)\<rparr>;
          ts = transaction # trades (portfolio s);
          ts' = (if length ts > 100 then take 100 ts else ts);
          s' = s\<lparr>portfolio := (portfolio s)\<lparr>trades := ts'\<rparr>\<rparr>
      in (s', saveToStorage s' (snd w)))"

definition deposit :: "real number \<Rightarrow> int \<Rightarrow> world \<Rightarrow> bool \<times> world" where
  "deposit btcAmount now w =
     (case btcAmount of
        NaN \<Rightarrow> (False, w)
      | Num a \<Rightarrow>
          if a \<le> 0 then (False, w)
          else
            let s = fst w;
                p = portfolio s;
                p1 = (if initialBtc p = 0
                      then p\<lparr>initialBtc := a, btcBalance := a,
                             history := [\<lparr>pt_time = now, pt_value = a\<rparr>]\<rparr>
                      else p\<lparr>btcBalance := btcBalance p + a\<rparr>);
                p2 = p1\<lparr>eurBalance := btcToEur (btcBalance p1)\<rparr>;
                s1 = s\<lparr>portfolio := p2, bot := (bot s)\<lparr>active := True, lastUpdate := now\<rparr>\<rparr>;
                w2 = addTransaction ''deposit'' a now 0 (s1, snd w)
            in (True, (fst w2, saveToStorage (fst w2) (snd w2))))"

definition monthsElapsed :: "int \<Rightarrow> AnomCAT \<Rightarrow> real" where
  "monthsElapsed now s =
     real_of_int (now - lastUpdate (bot s)) / (1000 * 60 * 60 * 24 * DAYS_PER_MONTH)"

definition growth :: "int \<Rightarrow> AnomCAT \<Rightarrow> real" where
  "growth now s =
     btcBalance (portfolio s) * ((1 + monthlyReturn (bot s)) powr monthsElapsed now s - 1)"

definition updatePortfolio :: "int \<Rightarrow> real \<Rightarrow> real \<Rightarrow> real \<Rightarrow> world \<Rightarrow> world" where
  "updatePortfolio now u1 u2 u3 w =
     (let s = fst w; p = portfolio s in
      if \<not> active (bot s) \<or> btcBalance p \<le> 0 then w
      else if growth now s > SATOSHI_THRESHOLD then
        let b = btcBalance p + growth now s;
            h = history p @ [\<lparr>pt_time = now, pt_value = b\<rparr>];
            h' = (if length h > 100 then tl h else h);
            s1 = s\<lparr>portfolio := p\<lparr>btcBalance := b, eurBalance := btcToEur b, history := h'\<rparr>,
                   bot := (bot s)\<lparr>lastUpdate := now\<rparr>\<rparr>;
            w2 = (if u1 > 0.7
                  then addTransaction ''trade'' (b * (u2 * 0.05 + 0.01)) now u3 (s1, snd w)
                  else (s1, snd w))
        in (fst w2, saveToStorage (fst w2) (snd w2))
      else w)"

text \<open>Derived queries of \<^verbatim>\<open>updateStatDisplays\<close>.\<close>

definition profit :: "AnomCAT \<Rightarrow> real" where
  "profit s = btcBalance (portfolio s) - initialBtc (portfolio s)"

definition roi :: "AnomCAT \<Rightarrow> real" where
  "roi s =
     (if initialBtc (portfolio s) > 0
      then (btcBalance (portfolio s) - initialBtc (portfolio s)) / initialBtc (portfolio s) * 100
      else 0)"

text \<open>The operations a session applies to the engine, and a run of them.\<close>

datatype op = Deposit "real number" int | Tick int real real real

fun step :: "op \<Rightarrow> world \<Rightarrow> world" where
  "step (Deposit a now) w = snd (deposit a now w)"
| "step (Tick now u1 u2 u3) w = updatePortfolio now u1 u2 u3 w"

definition run :: "op list \<Rightarrow> world \<Rightarrow> world" where
  "run ops w = fold step ops w"

subsection \<open>Data model of the class variant\<close>

record Trade_cls =
  t_time :: int
  t_type :: string
  t_amount :: real
  t_profit :: bool

record Portfolio_cls =
  initial :: real
  current :: real
  history_cls :: "Snapshot list"
  trades_cls :: "Trade_cls list"

text \<open>
  The fields \<^verbatim>\<open>monthlyReturn\<close> (assigned once, in the constructor) and \<^verbatim>\<open>currentFeed\<close>
  (the feed simulator's) are not part of the record: the first is the constant
  \<open>monthlyReturn_cls\<close>, the second is no engine state.
\<close>

record AnomCAT_cls =
  portfolio_cls :: Portfolio_cls
  botActive :: bool
  lastUpdate_cls :: "int number"

record Trade_cls_js =
  js_t_time :: int
  js_t_type :: string
  js_t_amount :: "real option"
  js_t_profit :: bool

record Portfolio_cls_js =
  js_initial :: "real option"
  js_current :: "real option"
  js_history_cls :: "Snapshot_js list"
  js_trades_cls :: "Trade_cls_js list"


record localStorage_cls =
  anomcat_portfolio_cls :: "Portfolio_cls_js stored option"
  anomcat_bot_active :: "bool stored option"
  anomcat_last_update :: "int stored option"

type_synonym world_cls = "AnomCAT_cls \<times> localStorage_cls"

definition monthlyReturn_cls :: real where
  "monthlyReturn_cls = 0.013"

definition initial_state_cls :: "int \<Rightarrow> AnomCAT_cls" where
  "initial_state_cls t0 =
     \<lparr>portfolio_cls = \<lparr>initial = 0, current = 0, history_cls = [], trades_cls = []\<rparr>,
      botActive = False, lastUpdate_cls = Num t0\<rparr>"

definition empty_storage_cls :: localStorage_cls where
  "empty_storage_cls =
     \<lparr>anomcat_portfolio_cls = None, anomcat_bot_active = None, anomcat_last_update = None\<rparr>"

subsection \<open>Persistence of the class variant\<close>

text \<open>
  \<^verbatim>\<open>setItem\<close> stores \<^verbatim>\<open>String(value)\<close>: the decimal digits of an integer time stamp,
  and \<^verbatim>\<open>'NaN'\<close>, which \<^verbatim>\<open>parseInt\<close> does not read as a number.
\<close>

fun String_number :: "int number \<Rightarrow> int stored" where
  "String_number NaN = Garbage"
| "String_number (Num n) = Text n"


definition conv_Trade_cls :: "(real \<Rightarrow> real option) \<Rightarrow> Trade_cls \<Rightarrow> Trade_cls_js" where
  "conv_Trade_cls f t =
     \<lparr>js_t_time = t_time t, js_t_type = t_type t, js_t_amount = f (t_amount t),
      js_t_profit = t_profit t\<rparr>"

definition conv_Portfolio_cls ::
    "(real \<Rightarrow> real option) \<Rightarrow> Portfolio_cls \<Rightarrow> Portfolio_cls_js" where
  "conv_Portfolio_cls f p =
     \<lparr>js_initial = f (initial p), js_current = f (current p),
      js_history_cls = map (conv_Snapshot f) (history_cls p),
      js_trades_cls = map (conv_Trade_cls f) (trades_cls p)\<rparr>"



definition JSON_Portfolio_cls :: "Portfolio_cls \<Rightarrow> Portfolio_cls_js" where
  "JSON_Portfolio_cls = conv_Portfolio_cls JSON_number"


definition saveToStorage_cls :: "AnomCAT_cls \<Rightarrow> localStorage_cls \<Rightarrow> localStorage_cls" where
  "saveToStorage_cls s st =
     st\<lparr>anomcat_portfolio_cls := Some (Text (JSON_Portfolio_cls (portfolio_cls s))),
        anomcat_bot_active := Some (Text (botActive s)),
        anomcat_last_update := Some (String_number (lastUpdate_cls s))\<rparr>"




subsection \<open>Growth engine of the class variant\<close>

definition simulateTrade :: "string \<Rightarrow> real \<Rightarrow> int \<Rightarrow> real \<Rightarrow> world_cls \<Rightarrow> world_cls" where
  "simulateTrade type amount now u w =
     (let s = fst w;
          trade = \<lparr>t_time = now, t_type = type, t_amount = amount, t_profit = (u > 0.4)\<rparr>;
          ts = trades_cls (portfolio_cls s) @ [trade];
          ts' = (if length ts > 50 then tl ts else ts);
          s' = s\<lparr>portfolio_cls := (portfolio_cls s)\<lparr>trades_cls := ts'\<rparr>\<rparr>
      in (s', saveToStorage_cls s' (snd w)))"

text \<open>
  \<open>handleDeposit\<close> takes the result of \<^verbatim>\<open>parseFloat\<close> on the input field and returns the
  text of the alert it raises, if any.
\<close>

definition handleDeposit ::
    "real number \<Rightarrow> int \<Rightarrow> real \<Rightarrow> world_cls \<Rightarrow> string option \<times> world_cls" where
  "handleDeposit amount now u w =
     (case amount of
        NaN \<Rightarrow> (Some ''Please enter a valid BTC amount'', w)
      | Num a \<Rightarrow>
          if a \<le> 0 then (Some ''Please enter a valid BTC amount'', w)
          else
            let s = fst w;
                p = portfolio_cls s;
                p1 = (if initial p = 0
                      then p\<lparr>initial := a, current := a,
                             history_cls := [\<lparr>pt_time = now, pt_value = a\<rparr>]\<rparr>
                      else p\<lparr>current := current p + a\<rparr>);
                s1 = s\<lparr>portfolio_cls := p1, botActive := True, lastUpdate_cls := Num now\<rparr>;
                w1 = (s1, saveToStorage_cls s1 (snd w))
            in (None, simulateTrade ''BUY'' (a * 0.1) now u w1))"

text \<open>
  The growth computed by the timer callback of \<open>startBot\<close>. With \<^verbatim>\<open>lastUpdate\<close> being
  \<^verbatim>\<open>NaN\<close>, \<^verbatim>\<open>elapsed\<close>, \<^verbatim>\<open>monthsElapsed\<close> and \<^verbatim>\<open>growth\<close> are \<^verbatim>\<open>NaN\<close>, and the
  comparison \<^verbatim>\<open>growth > 0.00000001\<close> is false.
\<close>

definition growth_cls :: "int \<Rightarrow> AnomCAT_cls \<Rightarrow> real number" where
  "growth_cls now s =
     (case lastUpdate_cls s of
        NaN \<Rightarrow> NaN
      | Num lu \<Rightarrow>
          let elapsed = now - lu;
              monthsElapsed = real_of_int elapsed / (1000 * 60 * 60 * 24 * 30)
          in Num (current (portfolio_cls s) * (1 + monthlyReturn_cls) powr monthsElapsed
                  - current (portfolio_cls s)))"

definition startBot ::
    "int \<Rightarrow> real \<Rightarrow> real \<Rightarrow> real \<Rightarrow> real \<Rightarrow> world_cls \<Rightarrow> world_cls" where
  "startBot now u1 u2 u3 u4 w =
     (let s = fst w; p = portfolio_cls s in
      if botActive s \<and> current p > 0 then
        (case growth_cls now s of
           NaN \<Rightarrow> w
         | Num g \<Rightarrow>
             if g > 0.00000001 then
               let c = current p + g;
                   h = history_cls p @ [\<lparr>pt_time = now, pt_value = c\<rparr>];
                   h' = (if length h > 100 then tl h else h);
                   s1 = s\<lparr>portfolio_cls := p\<lparr>current := c, history_cls := h'\<rparr>,
                          lastUpdate_cls := Num now\<rparr>;
                   w1 = (s1, saveToStorage_cls s1 (snd w))
               in if u1 > 0.7
                  then simulateTrade (if u3 > 0.5 then ''BUY'' else ''SELL'')
                         (c * (u2 * 0.05 + 0.01)) now u4 w1
                  else w1
             else w)
      else w)"

datatype op_cls = Deposit_cls "real number" int real | Tick_cls int real real real real

fun step_cls :: "op_cls \<Rightarrow> world_cls \<Rightarrow> world_cls" where
  "step_cls (Deposit_cls a now u) w = snd (handleDeposit a now u w)"
| "step_cls (Tick_cls now u1 u2 u3 u4) w = startBot now u1 u2 u3 u4 w"

definition run_cls :: "op_cls list \<Rightarrow> world_cls \<Rightarrow> world_cls" where
  "run_cls ops w = fold step_cls ops w"

section \<open>Properties\<close>

subsection \<open>Deposits\<close>

lemma deposit_invalid:
  "deposit NaN now w = (False, w)" "x \<le> 0 \<Longrightarrow> deposit (Num x) now w = (False, w)"
  by (simp_all add: deposit_def)

lemma handleDeposit_invalid:
  "handleDeposit NaN now u w = (Some ''Please enter a valid BTC amount'', w)"
  "x \<le> 0 \<Longrightarrow> handleDeposit (Num x) now u w = (Some ''Please enter a valid BTC amount'', w)"
  by (simp_all add: handleDeposit_def)

lemma addTransaction_fst:
  "fst (addTransaction ty amount now u w) =
     (fst w)\<lparr>portfolio := (portfolio (fst w))
        \<lparr>trades := take 100 (\<lparr>tx_id = now, tx_time = now, tx_type = ty, tx_amount = amount,
             tx_profit = (if ty = ''trade'' then Some (u > 0.4) else None)\<rparr> # trades (portfolio (fst w)))\<rparr>\<rparr>"
  by (simp add: addTransaction_def Let_def)

lemma deposit_valid_fst:
  assumes "0 < d"
  shows "fst (snd (deposit (Num d) now w)) =
     (fst w)\<lparr>portfolio :=
        (if initialBtc (portfolio (fst w)) = 0
         then (portfolio (fst w))\<lparr>initialBtc := d, btcBalance := d, eurBalance := btcToEur d,
                history := [\<lparr>pt_time = now, pt_value = d\<rparr>]\<rparr>
         else (portfolio (fst w))\<lparr>btcBalance := btcBalance (portfolio (fst w)) + d,
                eurBalance := btcToEur (btcBalance (portfolio (fst w)) + d)\<rparr>)
        \<lparr>trades := take 100 (\<lparr>tx_id = now, tx_time = now, tx_type = ''deposit'', tx_amount = d,
             tx_profit = None\<rparr> # trades (portfolio (fst w)))\<rparr>,
      bot := (bot (fst w))\<lparr>active := True, lastUpdate := now\<rparr>\<rparr>"
  using assms by (simp add: deposit_def addTransaction_fst Let_def)

lemma deposit_valid_ok: "0 < d \<Longrightarrow> fst (deposit (Num d) now w) = True"
  by (simp add: deposit_def Let_def)

lemma simulateTrade_fst:
  "fst (simulateTrade ty amount now u w) =
     (fst w)\<lparr>portfolio_cls := (portfolio_cls (fst w))
        \<lparr>trades_cls :=
           (let ts = trades_cls (portfolio_cls (fst w)) @
                  [\<lparr>t_time = now, t_type = ty, t_amount = amount, t_profit = (u > 0.4)\<rparr>]
            in if length ts > 50 then tl ts else ts)\<rparr>\<rparr>"
  by (simp add: simulateTrade_def Let_def)

lemma handleDeposit_valid_fst:
  assumes "0 < d"
  shows "fst (snd (handleDeposit (Num d) now u w)) =
     (fst w)\<lparr>portfolio_cls :=
        (if initial (portfolio_cls (fst w)) = 0
         then (portfolio_cls (fst w))\<lparr>initial := d, current := d,
                history_cls := [\<lparr>pt_time = now, pt_value = d\<rparr>]\<rparr>
         else (portfolio_cls (fst w))\<lparr>current := current (portfolio_cls (fst w)) + d\<rparr>)
        \<lparr>trades_cls :=
           (let ts = trades_cls (portfolio_cls (fst w)) @
                  [\<lparr>t_time = now, t_type = ''BUY'', t_amount = d * 0.1, t_profit = (u > 0.4)\<rparr>]
            in if length ts > 50 then tl ts else ts)\<rparr>,
      botActive := True, lastUpdate_cls := Num now\<rparr>"
  using assms by (simp add: handleDeposit_def simulateTrade_fst Let_def)

lemma handleDeposit_valid_ok: "0 < d \<Longrightarrow> fst (handleDeposit (Num d) now u w) = None"
  by (simp add: handleDeposit_def Let_def)

subsection \<open>Growth ticks\<close>

lemma updatePortfolio_noop:
  "\<not> active (bot (fst w)) \<or> btcBalance (portfolio (fst w)) \<le> 0
     \<or> growth now (fst w) \<le> SATOSHI_THRESHOLD
   \<Longrightarrow> updatePortfolio now u1 u2 u3 w = w"
  by (auto simp add: updatePortfolio_def Let_def)

lemma updatePortfolio_applied:
  assumes "active (bot (fst w))" "0 < btcBalance (portfolio (fst w))"
    "SATOSHI_THRESHOLD < growth now (fst w)"
  shows "fst (updatePortfolio now u1 u2 u3 w) =
     (let p = portfolio (fst w);
          b = btcBalance p + growth now (fst w);
          h = history p @ [\<lparr>pt_time = now, pt_value = b\<rparr>];
          ts = (if u1 > 0.7
                then take 100 (\<lparr>tx_id = now, tx_time = now, tx_type = ''trade'',
                       tx_amount = b * (u2 * 0.05 + 0.01), tx_profit = Some (u3 > 0.4)\<rparr> # trades p)
                else trades p)
      in (fst w)\<lparr>portfolio := p\<lparr>btcBalance := b, eurBalance := btcToEur b,
                      history := (if length h > 100 then tl h else h), trades := ts\<rparr>,
                  bot := (bot (fst w))\<lparr>lastUpdate := now\<rparr>\<rparr>)"
  using assms by (simp add: updatePortfolio_def addTransaction_fst Let_def)

lemma updatePortfolio_balance:
  "btcBalance (portfolio (fst (updatePortfolio now u1 u2 u3 w))) =
     (if active (bot (fst w)) \<and> 0 < btcBalance (portfolio (fst w))
         \<and> SATOSHI_THRESHOLD < growth now (fst w)
      then btcBalance (portfolio (fst w)) + growth now (fst w)
      else btcBalance (portfolio (fst w)))"
  by (simp add: updatePortfolio_def addTransaction_fst Let_def)

lemma startBot_noop:
  "\<not> botActive (fst w) \<or> current (portfolio_cls (fst w)) \<le> 0
     \<or> (case growth_cls now (fst w) of NaN \<Rightarrow> True | Num g \<Rightarrow> g \<le> 0.00000001)
   \<Longrightarrow> startBot now u1 u2 u3 u4 w = w"
  by (auto simp add: startBot_def Let_def split: number.splits)

lemma startBot_applied:
  assumes "botActive (fst w)" "0 < current (portfolio_cls (fst w))"
    "growth_cls now (fst w) = Num g" "0.00000001 < g"
  shows "fst (startBot now u1 u2 u3 u4 w) =
     (let p = portfolio_cls (fst w);
          c = current p + g;
          h = history_cls p @ [\<lparr>pt_time = now, pt_value = c\<rparr>];
          ts = (if u1 > 0.7
                then (let ts = trades_cls p @ [\<lparr>t_time = now,
                                t_type = (if u3 > 0.5 then ''BUY'' else ''SELL''),
                                t_amount = c * (u2 * 0.05 + 0.01), t_profit = (u4 > 0.4)\<rparr>]
                      in if length ts > 50 then tl ts else ts)
                else trades_cls p)
      in (fst w)\<lparr>portfolio_cls := p\<lparr>current := c,
                      history_cls := (if length h > 100 then tl h else h), trades_cls := ts\<rparr>,
                  lastUpdate_cls := Num now\<rparr>)"
  using assms by (simp add: startBot_def simulateTrade_fst Let_def)

lemma startBot_balance:
  "current (portfolio_cls (fst (startBot now u1 u2 u3 u4 w))) =
     (case growth_cls now (fst w) of
        NaN \<Rightarrow> current (portfolio_cls (fst w))
      | Num g \<Rightarrow>
          if botActive (fst w) \<and> 0 < current (portfolio_cls (fst w)) \<and> 0.00000001 < g
          then current (portfolio_cls (fst w)) + g
          else current (portfolio_cls (fst w)))"
  by (simp add: startBot_def simulateTrade_fst Let_def split: number.splits)




lemma run_append: "run (xs @ ys) w = run ys (run xs w)"
  by (simp add: run_def)

lemma run_cls_append: "run_cls (xs @ ys) w = run_cls ys (run_cls xs w)"
  by (simp add: run_cls_def)

lemma updatePortfolio_mono:
  "btcBalance (portfolio (fst w)) \<le> btcBalance (portfolio (fst (updatePortfolio now u1 u2 u3 w)))"
  by (simp add: updatePortfolio_balance SATOSHI_THRESHOLD_def)

lemma startBot_mono:
  "current (portfolio_cls (fst w)) \<le> current (portfolio_cls (fst (startBot now u1 u2 u3 u4 w)))"
  by (simp add: startBot_balance split: number.splits)

lemma ticks_mono:
  "btcBalance (portfolio (fst w))
     \<le> btcBalance (portfolio (fst (run (map (\<lambda>(now, u1, u2, u3). Tick now u1 u2 u3) ts) w)))"
proof (induction ts arbitrary: w)
  case Nil
  show ?case by (simp add: run_def)
next
  case (Cons t ts)
  obtain now u1 u2 u3 where t: "t = (now, u1, u2, u3)" by (cases t) auto
  have "btcBalance (portfolio (fst w))
      \<le> btcBalance (portfolio (fst (updatePortfolio now u1 u2 u3 w)))"
    by (rule updatePortfolio_mono)
  also have "\<dots> \<le> btcBalance (portfolio (fst (run (map (\<lambda>(now, u1, u2, u3). Tick now u1 u2 u3) ts)
      (updatePortfolio now u1 u2 u3 w))))"
    by (rule Cons.IH)
  finally show ?case by (simp add: t run_def)
qed

lemma ticks_cls_mono:
  "current (portfolio_cls (fst w))
     \<le> current (portfolio_cls (fst (run_cls
          (map (\<lambda>(now, u1, u2, u3, u4). Tick_cls now u1 u2 u3 u4) ts) w)))"
proof (induction ts arbitrary: w)
  case Nil
  show ?case by (simp add: run_cls_def)
next
  case (Cons t ts)
  obtain now u1 u2 u3 u4 where t: "t = (now, u1, u2, u3, u4)" by (cases t) auto
  have "current (portfolio_cls (fst w))
      \<le> current (portfolio_cls (fst (startBot now u1 u2 u3 u4 w)))"
    by (rule startBot_mono)
  also have "\<dots> \<le> current (portfolio_cls (fst (run_cls
      (map (\<lambda>(now, u1, u2, u3, u4). Tick_cls now u1 u2 u3 u4) ts) (startBot now u1 u2 u3 u4 w))))"
    by (rule Cons.IH)
  finally show ?case by (simp add: t run_cls_def)
qed

text \<open>Until the first deposit the balance is zero; afterwards \<open>initialBtc\<close> is not.\<close>

lemma step_keeps_zero:
  assumes "initialBtc (portfolio (fst w)) = 0 \<longrightarrow> btcBalance (portfolio (fst w)) = 0"
  shows "initialBtc (portfolio (fst (step x w))) = 0 \<longrightarrow> btcBalance (portfolio (fst (step x w))) = 0"
proof (cases x)
  case (Deposit a now)
  show ?thesis
  proof (cases a)
    case NaN
    with Deposit assms show ?thesis by (simp add: deposit_invalid)
  next
    case (Num d)
    show ?thesis
    proof (cases "0 < d")
      case True
      with Deposit Num show ?thesis by (simp add: deposit_valid_fst)
    next
      case False
      with Deposit Num assms show ?thesis by (simp add: deposit_invalid)
    qed
  qed
next
  case (Tick now u1 u2 u3)
  show ?thesis
  proof (cases "initialBtc (portfolio (fst w)) = 0")
    case True
    with assms have "updatePortfolio now u1 u2 u3 w = w"
      by (intro updatePortfolio_noop) simp
    with Tick assms show ?thesis by simp
  next
    case False
    have "initialBtc (portfolio (fst (updatePortfolio now u1 u2 u3 w))) = initialBtc (portfolio (fst w))"
      by (simp add: updatePortfolio_def addTransaction_fst Let_def)
    with False Tick show ?thesis by simp
  qed
qed

lemma step_mono:
  assumes "initialBtc (portfolio (fst w)) = 0 \<longrightarrow> btcBalance (portfolio (fst w)) = 0"
  shows "btcBalance (portfolio (fst w)) \<le> btcBalance (portfolio (fst (step x w)))"
proof (cases x)
  case (Deposit a now)
  show ?thesis
  proof (cases a)
    case NaN
    with Deposit show ?thesis by (simp add: deposit_invalid)
  next
    case (Num d)
    show ?thesis
    proof (cases "0 < d")
      case True
      with Deposit Num assms show ?thesis by (simp add: deposit_valid_fst)
    next
      case False
      with Deposit Num show ?thesis by (simp add: deposit_invalid)
    qed
  qed
next
  case (Tick now u1 u2 u3)
  then show ?thesis by (simp add: updatePortfolio_mono)
qed

lemma run_mono:
  assumes "initialBtc (portfolio (fst w)) = 0 \<longrightarrow> btcBalance (portfolio (fst w)) = 0"
  shows "btcBalance (portfolio (fst w)) \<le> btcBalance (portfolio (fst (run ops w)))"
  using assms
proof (induction ops arbitrary: w)
  case Nil
  show ?case by (simp add: run_def)
next
  case (Cons x ops)
  have "btcBalance (portfolio (fst w)) \<le> btcBalance (portfolio (fst (step x w)))"
    using Cons.prems by (rule step_mono)
  also have "\<dots> \<le> btcBalance (portfolio (fst (run ops (step x w))))"
    using Cons.prems by (intro Cons.IH step_keeps_zero)
  finally show ?case by (simp add: run_def)
qed

lemma run_keeps_zero:
  assumes "initialBtc (portfolio (fst w)) = 0 \<longrightarrow> btcBalance (portfolio (fst w)) = 0"
  shows "initialBtc (portfolio (fst (run ops w))) = 0 \<longrightarrow> btcBalance (portfolio (fst (run ops w))) = 0"
  using assms
proof (induction ops arbitrary: w)
  case Nil
  then show ?case by (simp add: run_def)
next
  case (Cons x ops)
  have "initialBtc (portfolio (fst (run ops (step x w)))) = 0 \<longrightarrow>
        btcBalance (portfolio (fst (run ops (step x w)))) = 0"
    using Cons.prems by (intro Cons.IH step_keeps_zero)
  then show ?case by (simp add: run_def)
qed

lemma startBot_initial:
  "initial (portfolio_cls (fst (startBot now u1 u2 u3 u4 w))) = initial (portfolio_cls (fst w))"
  by (simp add: startBot_def simulateTrade_fst Let_def split: number.splits)

lemma step_cls_keeps_zero:
  assumes "initial (portfolio_cls (fst w)) = 0 \<longrightarrow> current (portfolio_cls (fst w)) = 0"
  shows "initial (portfolio_cls (fst (step_cls x w))) = 0
     \<longrightarrow> current (portfolio_cls (fst (step_cls x w))) = 0"
proof (cases x)
  case (Deposit_cls a now u)
  show ?thesis
  proof (cases a)
    case NaN
    with Deposit_cls assms show ?thesis by (simp add: handleDeposit_invalid)
  next
    case (Num d)
    show ?thesis
    proof (cases "0 < d")
      case True
      with Deposit_cls Num show ?thesis by (simp add: handleDeposit_valid_fst)
    next
      case False
      with Deposit_cls Num assms show ?thesis by (simp add: handleDeposit_invalid)
    qed
  qed
next
  case (Tick_cls now u1 u2 u3 u4)
  show ?thesis
  proof (cases "initial (portfolio_cls (fst w)) = 0")
    case True
    with assms have "startBot now u1 u2 u3 u4 w = w"
      by (intro startBot_noop) simp
    with Tick_cls assms show ?thesis by simp
  next
    case False
    with Tick_cls show ?thesis by (simp add: startBot_initial)
  qed
qed

lemma step_cls_mono:
  assumes "initial (portfolio_cls (fst w)) = 0 \<longrightarrow> current (portfolio_cls (fst w)) = 0"
  shows "current (portfolio_cls (fst w)) \<le> current (portfolio_cls (fst (step_cls x w)))"
proof (cases x)
  case (Deposit_cls a now u)
  show ?thesis
  proof (cases a)
    case NaN
    with Deposit_cls show ?thesis by (simp add: handleDeposit_invalid)
  next
    case (Num d)
    show ?thesis
    proof (cases "0 < d")
      case True
      with Deposit_cls Num assms show ?thesis by (simp add: handleDeposit_valid_fst)
    next
      case False
      with Deposit_cls Num show ?thesis by (simp add: handleDeposit_invalid)
    qed
  qed
next
  case (Tick_cls now u1 u2 u3 u4)
  then show ?thesis by (simp add: startBot_mono)
qed

lemma run_cls_mono:
  assumes "initial (portfolio_cls (fst w)) = 0 \<longrightarrow> current (portfolio_cls (fst w)) = 0"
  shows "current (portfolio_cls (fst w)) \<le> current (portfolio_cls (fst (run_cls ops w)))"
  using assms
proof (induction ops arbitrary: w)
  case Nil
  show ?case by (simp add: run_cls_def)
next
  case (Cons x ops)
  have "current (portfolio_cls (fst w)) \<le> current (portfolio_cls (fst (step_cls x w)))"
    using Cons.prems by (rule step_cls_mono)
  also have "\<dots> \<le> current (portfolio_cls (fst (run_cls ops (step_cls x w))))"
    using Cons.prems by (intro Cons.IH step_cls_keeps_zero)
  finally show ?case by (simp add: run_cls_def)
qed

lemma run_cls_keeps_zero:
  assumes "initial (portfolio_cls (fst w)) = 0 \<longrightarrow> current (portfolio_cls (fst w)) = 0"
  shows "initial (portfolio_cls (fst (run_cls ops w))) = 0
     \<longrightarrow> current (portfolio_cls (fst (run_cls ops w))) = 0"
  using assms
proof (induction ops arbitrary: w)
  case Nil
  then show ?case by (simp add: run_cls_def)
next
  case (Cons x ops)
  have "initial (portfolio_cls (fst (run_cls ops (step_cls x w)))) = 0 \<longrightarrow>
        current (portfolio_cls (fst (run_cls ops (step_cls x w)))) = 0"
    using Cons.prems by (intro Cons.IH step_cls_keeps_zero)
  then show ?case by (simp add: run_cls_def)
qed

lemma addTransaction_balance:
  "btcBalance (portfolio (fst (addTransaction ty amount now u w))) = btcBalance (portfolio (fst w))"
  by (simp add: addTransaction_fst)

lemma simulateTrade_balance:
  "current (portfolio_cls (fst (simulateTrade ty amount now u w))) = current (portfolio_cls (fst w))"
  by (simp add: simulateTrade_fst)


lemma deposit_one_state:
  "fst (snd (deposit (Num 1) 5 (initial_state 0, empty_storage))) =
     \<lparr>currency = ''BTC'',
      portfolio = \<lparr>btcBalance = 1, eurBalance = 45000, initialBtc = 1,
                   history = [\<lparr>pt_time = 5, pt_value = 1\<rparr>],
                   trades = [\<lparr>tx_id = 5, tx_time = 5, tx_type = ''deposit'', tx_amount = 1,
                              tx_profit = None\<rparr>]\<rparr>,
      bot = \<lparr>active = True, monthlyReturn = 0.013, lastUpdate = 5\<rparr>\<rparr>"
  by (simp add: deposit_valid_fst initial_state_def btcToEur_def btcToEurRate_def
      DEFAULT_BTC_EUR_RATE_def)










subsection \<open>Bounded logs\<close>

lemma step_bounds:
  assumes "length (history (portfolio (fst w))) \<le> 100 \<and> length (trades (portfolio (fst w))) \<le> 100"
  shows "length (history (portfolio (fst (step x w)))) \<le> 100
       \<and> length (trades (portfolio (fst (step x w)))) \<le> 100"
proof (cases x)
  case (Deposit a now)
  show ?thesis
  proof (cases a)
    case NaN
    with Deposit assms show ?thesis by (simp add: deposit_invalid)
  next
    case (Num d)
    with Deposit assms show ?thesis
      by (cases "0 < d") (simp_all add: deposit_valid_fst deposit_invalid)
  qed
next
  case (Tick now u1 u2 u3)
  show ?thesis
  proof (cases "active (bot (fst w)) \<and> 0 < btcBalance (portfolio (fst w))
      \<and> SATOSHI_THRESHOLD < growth now (fst w)")
    case True
    with Tick assms show ?thesis by (simp add: updatePortfolio_applied Let_def)
  next
    case False
    then have "updatePortfolio now u1 u2 u3 w = w"
      by (intro updatePortfolio_noop) auto
    with Tick assms show ?thesis by simp
  qed
qed

lemma run_bounds:
  assumes "length (history (portfolio (fst w))) \<le> 100 \<and> length (trades (portfolio (fst w))) \<le> 100"
  shows "length (history (portfolio (fst (run ops w)))) \<le> 100
       \<and> length (trades (portfolio (fst (run ops w)))) \<le> 100"
  using assms
proof (induction ops arbitrary: w)
  case Nil
  then show ?case by (simp add: run_def)
next
  case (Cons x ops)
  have "length (history (portfolio (fst (run ops (step x w))))) \<le> 100
       \<and> length (trades (portfolio (fst (run ops (step x w))))) \<le> 100"
    using Cons.prems by (intro Cons.IH step_bounds)
  then show ?case by (simp add: run_def)
qed

lemma step_cls_bounds:
  assumes "length (history_cls (portfolio_cls (fst w))) \<le> 100
         \<and> length (trades_cls (portfolio_cls (fst w))) \<le> 50"
  shows "length (history_cls (portfolio_cls (fst (step_cls x w)))) \<le> 100
       \<and> length (trades_cls (portfolio_cls (fst (step_cls x w)))) \<le> 50"
proof (cases x)
  case (Deposit_cls a now u)
  show ?thesis
  proof (cases a)
    case NaN
    with Deposit_cls assms show ?thesis by (simp add: handleDeposit_invalid)
  next
    case (Num d)
    with Deposit_cls assms show ?thesis
      by (cases "0 < d") (simp_all add: handleDeposit_valid_fst handleDeposit_invalid Let_def)
  qed
next
  case (Tick_cls now u1 u2 u3 u4)
  show ?thesis
  proof (cases "botActive (fst w) \<and> 0 < current (portfolio_cls (fst w))
      \<and> (\<exists>g. growth_cls now (fst w) = Num g \<and> 0.00000001 < g)")
    case True
    then obtain g where "growth_cls now (fst w) = Num g" "0.00000001 < g" by blast
    with True Tick_cls assms show ?thesis by (simp add: startBot_applied Let_def)
  next
    case False
    then have "startBot now u1 u2 u3 u4 w = w"
      by (intro startBot_noop) (auto split: number.splits)
    with Tick_cls assms show ?thesis by simp
  qed
qed

lemma run_cls_bounds:
  assumes "length (history_cls (portfolio_cls (fst w))) \<le> 100
         \<and> length (trades_cls (portfolio_cls (fst w))) \<le> 50"
  shows "length (history_cls (portfolio_cls (fst (run_cls ops w)))) \<le> 100
       \<and> length (trades_cls (portfolio_cls (fst (run_cls ops w)))) \<le> 50"
  using assms
proof (induction ops arbitrary: w)
  case Nil
  then show ?case by (simp add: run_cls_def)
next
  case (Cons x ops)
  have "length (history_cls (portfolio_cls (fst (run_cls ops (step_cls x w))))) \<le> 100
       \<and> length (trades_cls (portfolio_cls (fst (run_cls ops (step_cls x w))))) \<le> 50"
    using Cons.prems by (intro Cons.IH step_cls_bounds)
  then show ?case by (simp add: run_cls_def)
qed

lemma addTransaction_full:
  assumes "length (trades (portfolio (fst w))) = 100"
  shows "trades (portfolio (fst (addTransaction ty amount now u w))) =
     \<lparr>tx_id = now, tx_time = now, tx_type = ty, tx_amount = amount,
       tx_profit = (if ty = ''trade'' then Some (u > 0.4) else None)\<rparr>
       # butlast (trades (portfolio (fst w)))"
  using assms by (simp add: addTransaction_fst butlast_conv_take)

lemma addTransaction_room:
  assumes "length (trades (portfolio (fst w))) < 100"
  shows "trades (portfolio (fst (addTransaction ty amount now u w))) =
     \<lparr>tx_id = now, tx_time = now, tx_type = ty, tx_amount = amount,
       tx_profit = (if ty = ''trade'' then Some (u > 0.4) else None)\<rparr>
       # trades (portfolio (fst w))"
  using assms by (simp add: addTransaction_fst)

lemma simulateTrade_full:
  assumes "length (trades_cls (portfolio_cls (fst w))) = 50"
  shows "trades_cls (portfolio_cls (fst (simulateTrade ty amount now u w))) =
     tl (trades_cls (portfolio_cls (fst w)))
       @ [\<lparr>t_time = now, t_type = ty, t_amount = amount, t_profit = (u > 0.4)\<rparr>]"
proof -
  from assms have "trades_cls (portfolio_cls (fst w)) \<noteq> []" by auto
  with assms show ?thesis by (simp add: simulateTrade_fst Let_def)
qed

lemma simulateTrade_room:
  assumes "length (trades_cls (portfolio_cls (fst w))) < 50"
  shows "trades_cls (portfolio_cls (fst (simulateTrade ty amount now u w))) =
     trades_cls (portfolio_cls (fst w))
       @ [\<lparr>t_time = now, t_type = ty, t_amount = amount, t_profit = (u > 0.4)\<rparr>]"
  using assms by (simp add: simulateTrade_fst Let_def)

lemma updatePortfolio_history:
  assumes "active (bot (fst w))" "0 < btcBalance (portfolio (fst w))"
    "SATOSHI_THRESHOLD < growth now (fst w)"
  shows "history (portfolio (fst (updatePortfolio now u1 u2 u3 w))) =
     (if length (history (portfolio (fst w))) < 100 then history (portfolio (fst w))
      else tl (history (portfolio (fst w))))
     @ [\<lparr>pt_time = now, pt_value = btcBalance (portfolio (fst w)) + growth now (fst w)\<rparr>]"
proof (cases "length (history (portfolio (fst w))) < 100")
  case True
  with assms show ?thesis by (simp add: updatePortfolio_applied Let_def)
next
  case False
  then have "history (portfolio (fst w)) \<noteq> []" by auto
  with False assms show ?thesis by (simp add: updatePortfolio_applied Let_def)
qed

lemma startBot_history:
  assumes "botActive (fst w)" "0 < current (portfolio_cls (fst w))"
    "growth_cls now (fst w) = Num g" "0.00000001 < g"
  shows "history_cls (portfolio_cls (fst (startBot now u1 u2 u3 u4 w))) =
     (if length (history_cls (portfolio_cls (fst w))) < 100 then history_cls (portfolio_cls (fst w))
      else tl (history_cls (portfolio_cls (fst w))))
     @ [\<lparr>pt_time = now, pt_value = current (portfolio_cls (fst w)) + g\<rparr>]"
proof (cases "length (history_cls (portfolio_cls (fst w))) < 100")
  case True
  with assms show ?thesis by (simp add: startBot_applied Let_def)
next
  case False
  then have "history_cls (portfolio_cls (fst w)) \<noteq> []" by auto
  with False assms show ?thesis by (simp add: startBot_applied Let_def)
qed

lemma deposit_valid_trades:
  assumes "0 < d"
  shows "trades (portfolio (fst (snd (deposit (Num d) now w)))) =
     \<lparr>tx_id = now, tx_time = now, tx_type = ''deposit'', tx_amount = d, tx_profit = None\<rparr>
       # take 99 (trades (portfolio (fst w)))"
  using assms by (simp add: deposit_valid_fst)

lemma addTransaction_hd:
  "hd (trades (portfolio (fst (addTransaction ty amount now u w)))) =
     \<lparr>tx_id = now, tx_time = now, tx_type = ty, tx_amount = amount,
       tx_profit = (if ty = ''trade'' then Some (u > 0.4) else None)\<rparr>"
  by (simp add: addTransaction_fst)

lemma updatePortfolio_trade:
  assumes "active (bot (fst w))" "0 < btcBalance (portfolio (fst w))"
    "SATOSHI_THRESHOLD < growth now (fst w)" "0.7 < u1"
  shows "trades (portfolio (fst (updatePortfolio now u1 u2 u3 w))) =
     \<lparr>tx_id = now, tx_time = now, tx_type = ''trade'',
       tx_amount = (btcBalance (portfolio (fst w)) + growth now (fst w)) * (u2 * 0.05 + 0.01),
       tx_profit = Some (u3 > 0.4)\<rparr>
       # take 99 (trades (portfolio (fst w)))"
  using assms by (simp add: updatePortfolio_applied Let_def)

lemma handleDeposit_valid_trades:
  assumes "0 < d"
  shows "trades_cls (portfolio_cls (fst (snd (handleDeposit (Num d) now u w)))) =
     (let ts = trades_cls (portfolio_cls (fst w))
                 @ [\<lparr>t_time = now, t_type = ''BUY'', t_amount = d * 0.1, t_profit = (u > 0.4)\<rparr>]
      in if length ts > 50 then tl ts else ts)"
  using assms by (simp add: handleDeposit_valid_fst Let_def)


subsection \<open>Persistence\<close>



































lemma isFinite_small: "isFinite 1" "isFinite 45000" "isFinite 0.013" "isFinite 1.013" "isFinite 0"
  by (simp_all add: isFinite_def OVERFLOW_def)

















subsection \<open>The claims\<close>




text \<open>
  Claim C2. A valid deposit \<open>d > 0\<close>: when \<open>initialDeposit\<close> is \<open>0\<close> it sets
  \<open>initialDeposit = balance = d\<close> and replaces the history by the single snapshot
  \<open>(now, d)\<close>; otherwise it adds \<open>d\<close> to the balance and leaves \<open>initialDeposit\<close> and the
  history as they are. In both cases the bot is active afterwards and \<open>lastUpdate = now\<close>.
  Two valid deposits \<open>d\<close>, \<open>e\<close> from the empty state leave \<open>initialDeposit = d\<close> and
  \<open>balance = d + e\<close>. This holds for \<open>AnomCAT.deposit\<close> and for the class variant's
  \<open>handleDeposit\<close>.
\<close>

theorem C2_deposit_effect:
  assumes "0 < d"
  shows
   "(let p = portfolio (fst w); r = deposit (Num d) now w; s' = fst (snd r); p' = portfolio s' in
      fst r \<and>
      (initialBtc p = 0 \<longrightarrow>
         initialBtc p' = d \<and> btcBalance p' = d \<and> history p' = [\<lparr>pt_time = now, pt_value = d\<rparr>]) \<and>
      (initialBtc p \<noteq> 0 \<longrightarrow>
         initialBtc p' = initialBtc p \<and> btcBalance p' = btcBalance p + d \<and> history p' = history p) \<and>
      active (bot s') \<and> lastUpdate (bot s') = now) \<and>
    (let p = portfolio_cls (fst wc); r = handleDeposit (Num d) now u wc; s' = fst (snd r);
         p' = portfolio_cls s' in
      fst r = None \<and>
      (initial p = 0 \<longrightarrow>
         initial p' = d \<and> current p' = d \<and> history_cls p' = [\<lparr>pt_time = now, pt_value = d\<rparr>]) \<and>
      (initial p \<noteq> 0 \<longrightarrow>
         initial p' = initial p \<and> current p' = current p + d \<and> history_cls p' = history_cls p) \<and>
      botActive s' \<and> lastUpdate_cls s' = Num now) \<and>
    (0 < e \<longrightarrow>
      (let s2 = fst (run [Deposit (Num d) now, Deposit (Num e) later] (initial_state t, st)) in
         initialBtc (portfolio s2) = d \<and> btcBalance (portfolio s2) = d + e) \<and>
      (let s2 = fst (run_cls [Deposit_cls (Num d) now u, Deposit_cls (Num e) later v]
                       (initial_state_cls t, stc)) in
         initial (portfolio_cls s2) = d \<and> current (portfolio_cls s2) = d + e))"
proof -
  have a: "let p = portfolio (fst w); r = deposit (Num d) now w; s' = fst (snd r); p' = portfolio s' in
      fst r \<and>
      (initialBtc p = 0 \<longrightarrow>
         initialBtc p' = d \<and> btcBalance p' = d \<and> history p' = [\<lparr>pt_time = now, pt_value = d\<rparr>]) \<and>
      (initialBtc p \<noteq> 0 \<longrightarrow>
         initialBtc p' = initialBtc p \<and> btcBalance p' = btcBalance p + d \<and> history p' = history p) \<and>
      active (bot s') \<and> lastUpdate (bot s') = now"
    using assms by (simp add: Let_def deposit_valid_fst deposit_valid_ok)
  have b: "let p = portfolio_cls (fst wc); r = handleDeposit (Num d) now u wc; s' = fst (snd r);
         p' = portfolio_cls s' in
      fst r = None \<and>
      (initial p = 0 \<longrightarrow>
         initial p' = d \<and> current p' = d \<and> history_cls p' = [\<lparr>pt_time = now, pt_value = d\<rparr>]) \<and>
      (initial p \<noteq> 0 \<longrightarrow>
         initial p' = initial p \<and> current p' = current p + d \<and> history_cls p' = history_cls p) \<and>
      botActive s' \<and> lastUpdate_cls s' = Num now"
    using assms by (simp add: Let_def handleDeposit_valid_fst handleDeposit_valid_ok)
  have c: "initialBtc (portfolio (fst (run [Deposit (Num d) now, Deposit (Num e) later] (initial_state t, st)))) = d
      \<and> btcBalance (portfolio (fst (run [Deposit (Num d) now, Deposit (Num e) later] (initial_state t, st)))) = d + e"
    if "0 < e"
    using assms that by (simp add: run_def deposit_valid_fst initial_state_def)
  have e: "initial (portfolio_cls (fst (run_cls [Deposit_cls (Num d) now u, Deposit_cls (Num e) later v]
                       (initial_state_cls t, stc)))) = d
      \<and> current (portfolio_cls (fst (run_cls [Deposit_cls (Num d) now u, Deposit_cls (Num e) later v]
                       (initial_state_cls t, stc)))) = d + e"
    if "0 < e"
    using assms that by (simp add: run_cls_def handleDeposit_valid_fst initial_state_cls_def)
  from a b c e show ?thesis by (simp add: Let_def)
qed

theorem C2_deposit_effect_witness:
  "(0::real) < 1 \<and> (0::real) < 2 \<and>
   fst (deposit (Num 1) 5 (initial_state 0, empty_storage)) \<and>
   btcBalance (portfolio (fst (snd (deposit (Num 1) 5 (initial_state 0, empty_storage))))) = 1 \<and>
   history (portfolio (fst (snd (deposit (Num 1) 5 (initial_state 0, empty_storage)))))
     = [\<lparr>pt_time = 5, pt_value = 1\<rparr>] \<and>
   lastUpdate (bot (fst (snd (deposit (Num 1) 5 (initial_state 0, empty_storage))))) = 5 \<and>
   current (portfolio_cls (fst (snd (handleDeposit (Num 1) 5 0.5
     (initial_state_cls 0, empty_storage_cls))))) = 1 \<and>
   btcBalance (portfolio (fst (run [Deposit (Num 1) 5, Deposit (Num 2) 9]
     (initial_state 0, empty_storage)))) = 3 \<and>
   initialBtc (portfolio (fst (run [Deposit (Num 1) 5, Deposit (Num 2) 9]
     (initial_state 0, empty_storage)))) = 1 \<and>
   current (portfolio_cls (fst (run_cls [Deposit_cls (Num 1) 5 0.5, Deposit_cls (Num 2) 9 0.3]
     (initial_state_cls 0, empty_storage_cls)))) = 3"
proof -
  have h: "(0::real) < 1" by simp
  show ?thesis
    using C2_deposit_effect [OF h, where w = "(initial_state 0, empty_storage)" and now = 5
        and wc = "(initial_state_cls 0, empty_storage_cls)" and u = "0.5" and e = 2
        and later = 9 and t = 0 and st = empty_storage and stc = empty_storage_cls
        and v = "0.3"]
    by (simp add: Let_def initial_state_def initial_state_cls_def)
qed

text \<open>
  Claim C3. A tick leaves the whole state (engine state and store, hence balance, history
  and \<open>lastUpdate\<close>) unchanged whenever the bot is inactive, the balance is \<open>0\<close>, or the
  computed growth does not exceed the threshold \<open>0.00000001\<close>; a second tick at the same
  \<open>now\<close> then yields the same state again.
\<close>

theorem C3_tick_noop:
  "(\<not> active (bot (fst w)) \<or> btcBalance (portfolio (fst w)) = 0
      \<or> growth now (fst w) \<le> SATOSHI_THRESHOLD \<longrightarrow>
      updatePortfolio now u1 u2 u3 w = w \<and>
      updatePortfolio now v1 v2 v3 (updatePortfolio now u1 u2 u3 w) = updatePortfolio now u1 u2 u3 w) \<and>
   (\<not> botActive (fst wc) \<or> current (portfolio_cls (fst wc)) = 0
      \<or> (case growth_cls now (fst wc) of NaN \<Rightarrow> True | Num g \<Rightarrow> g \<le> 0.00000001) \<longrightarrow>
      startBot now u1 u2 u3 u4 wc = wc \<and>
      startBot now v1 v2 v3 v4 (startBot now u1 u2 u3 u4 wc) = startBot now u1 u2 u3 u4 wc)"
proof -
  have a: "updatePortfolio now x1 x2 x3 w = w"
    if "\<not> active (bot (fst w)) \<or> btcBalance (portfolio (fst w)) = 0
      \<or> growth now (fst w) \<le> SATOSHI_THRESHOLD" for x1 x2 x3
    using that by (intro updatePortfolio_noop) auto
  have b: "startBot now x1 x2 x3 x4 wc = wc"
    if "\<not> botActive (fst wc) \<or> current (portfolio_cls (fst wc)) = 0
      \<or> (case growth_cls now (fst wc) of NaN \<Rightarrow> True | Num g \<Rightarrow> g \<le> 0.00000001)"
    for x1 x2 x3 x4
    using that by (intro startBot_noop) auto
  show ?thesis using a b by metis
qed

theorem C3_tick_noop_witness:
  "active (bot (fst (snd (deposit (Num (1 / 1000000000)) 5 (initial_state 0, empty_storage))))) \<and>
   btcBalance (portfolio (fst (snd (deposit (Num (1 / 1000000000)) 5 (initial_state 0, empty_storage)))))
     = 0.000000001 \<and>
   growth 2629746005 (fst (snd (deposit (Num (1 / 1000000000)) 5 (initial_state 0, empty_storage))))
     = 0.000000000013 \<and>
   updatePortfolio 2629746005 0.9 0.5 0.5
       (snd (deposit (Num (1 / 1000000000)) 5 (initial_state 0, empty_storage)))
     = snd (deposit (Num (1 / 1000000000)) 5 (initial_state 0, empty_storage)) \<and>
   updatePortfolio 2629746005 0.8 0.1 0.2
       (updatePortfolio 2629746005 0.9 0.5 0.5
          (snd (deposit (Num (1 / 1000000000)) 5 (initial_state 0, empty_storage))))
     = updatePortfolio 2629746005 0.9 0.5 0.5
         (snd (deposit (Num (1 / 1000000000)) 5 (initial_state 0, empty_storage))) \<and>
   growth 5 (fst (snd (deposit (Num 1) 5 (initial_state 0, empty_storage)))) = 0 \<and>
   updatePortfolio 5 0.9 0.5 0.5 (snd (deposit (Num 1) 5 (initial_state 0, empty_storage)))
     = snd (deposit (Num 1) 5 (initial_state 0, empty_storage)) \<and>
   startBot 9 0.9 0.5 0.5 0.5 (initial_state_cls 0, empty_storage_cls)
     = (initial_state_cls 0, empty_storage_cls)"
proof -
  let ?v = "snd (deposit (Num (1 / 1000000000)) 5 (initial_state 0, empty_storage))"
  let ?w = "snd (deposit (Num 1) 5 (initial_state 0, empty_storage))"
  let ?wc = "(initial_state_cls 0, empty_storage_cls)"
  have sv: "fst ?v =
     \<lparr>currency = ''BTC'',
      portfolio = \<lparr>btcBalance = 0.000000001, eurBalance = 0.000045, initialBtc = 0.000000001,
                   history = [\<lparr>pt_time = 5, pt_value = 0.000000001\<rparr>],
                   trades = [\<lparr>tx_id = 5, tx_time = 5, tx_type = ''deposit'',
                              tx_amount = 0.000000001, tx_profit = None\<rparr>]\<rparr>,
      bot = \<lparr>active = True, monthlyReturn = 0.013, lastUpdate = 5\<rparr>\<rparr>"
    by (simp add: deposit_valid_fst initial_state_def btcToEur_def btcToEurRate_def
        DEFAULT_BTC_EUR_RATE_def)
  have act: "active (bot (fst ?v))" and bal: "btcBalance (portfolio (fst ?v)) = 0.000000001"
    by (simp_all add: sv)
  have gv: "growth 2629746005 (fst ?v) = 0.000000000013"
    by (simp add: growth_def monthsElapsed_def DAYS_PER_MONTH_def sv)
  have hv: "\<not> active (bot (fst ?v)) \<or> btcBalance (portfolio (fst ?v)) = 0
      \<or> growth 2629746005 (fst ?v) \<le> SATOSHI_THRESHOLD"
    by (simp add: gv SATOSHI_THRESHOLD_def)
  have g: "growth 5 (fst ?w) = 0"
    by (simp add: deposit_one_state growth_def monthsElapsed_def)
  have h: "\<not> active (bot (fst ?w)) \<or> btcBalance (portfolio (fst ?w)) = 0
      \<or> growth 5 (fst ?w) \<le> SATOSHI_THRESHOLD"
    by (simp add: g SATOSHI_THRESHOLD_def)
  have hc: "\<not> botActive (fst ?wc) \<or> current (portfolio_cls (fst ?wc)) = 0
      \<or> (case growth_cls 9 (fst ?wc) of NaN \<Rightarrow> True | Num g \<Rightarrow> g \<le> 0.00000001)"
    by (simp add: initial_state_cls_def)
  have tv: "updatePortfolio 2629746005 0.9 0.5 0.5 ?v = ?v \<and>
      updatePortfolio 2629746005 0.8 0.1 0.2 (updatePortfolio 2629746005 0.9 0.5 0.5 ?v)
        = updatePortfolio 2629746005 0.9 0.5 0.5 ?v"
    using C3_tick_noop [where w = ?v and now = 2629746005 and ?u1.0 = "0.9" and ?u2.0 = "0.5"
        and ?u3.0 = "0.5" and ?v1.0 = "0.8" and ?v2.0 = "0.1" and ?v3.0 = "0.2"] hv
    by blast
  have t: "updatePortfolio 5 0.9 0.5 0.5 ?w = ?w"
    using C3_tick_noop [where w = ?w and now = 5 and ?u1.0 = "0.9" and ?u2.0 = "0.5"
        and ?u3.0 = "0.5"] h
    by blast
  have tc: "startBot 9 0.9 0.5 0.5 0.5 ?wc = ?wc"
    using C3_tick_noop [where wc = ?wc and now = 9 and ?u1.0 = "0.9" and ?u2.0 = "0.5"
        and ?u3.0 = "0.5" and ?u4.0 = "0.5"] hc
    by blast
  show ?thesis using act bal gv g tv t tc by blast
qed

text \<open>
  Claim C4. Along any sequence of ticks with non-decreasing \<open>now\<close> the balance is
  non-decreasing; logging a trade, whatever its random label, leaves the balance as it is;
  and along any run of deposits and ticks from the initial state no operation decreases
  the balance.
\<close>

theorem C4_balance_monotone:
  "(sorted (map fst (ts @ ts')) \<longrightarrow>
      btcBalance (portfolio (fst (run (map (\<lambda>(now, u1, u2, u3). Tick now u1 u2 u3) ts) w)))
        \<le> btcBalance (portfolio (fst (run (map (\<lambda>(now, u1, u2, u3). Tick now u1 u2 u3) (ts @ ts')) w)))) \<and>
   (sorted (map fst (tc @ tc')) \<longrightarrow>
      current (portfolio_cls (fst (run_cls
          (map (\<lambda>(now, u1, u2, u3, u4). Tick_cls now u1 u2 u3 u4) tc) wc)))
        \<le> current (portfolio_cls (fst (run_cls
          (map (\<lambda>(now, u1, u2, u3, u4). Tick_cls now u1 u2 u3 u4) (tc @ tc')) wc)))) \<and>
   btcBalance (portfolio (fst (addTransaction ty amount now u w))) = btcBalance (portfolio (fst w)) \<and>
   current (portfolio_cls (fst (simulateTrade ty amount now u wc))) = current (portfolio_cls (fst wc)) \<and>
   btcBalance (portfolio (fst (run ops (initial_state t, st))))
     \<le> btcBalance (portfolio (fst (run (ops @ ops') (initial_state t, st)))) \<and>
   current (portfolio_cls (fst (run_cls opc (initial_state_cls t, stc))))
     \<le> current (portfolio_cls (fst (run_cls (opc @ opc') (initial_state_cls t, stc))))"
proof -
  have z: "initialBtc (portfolio (fst (initial_state t, st))) = 0 \<longrightarrow>
           btcBalance (portfolio (fst (initial_state t, st))) = 0"
    by (simp add: initial_state_def)
  have zc: "initial (portfolio_cls (fst (initial_state_cls t, stc))) = 0 \<longrightarrow>
           current (portfolio_cls (fst (initial_state_cls t, stc))) = 0"
    by (simp add: initial_state_cls_def)
  have a: "btcBalance (portfolio (fst (run ops (initial_state t, st))))
     \<le> btcBalance (portfolio (fst (run (ops @ ops') (initial_state t, st))))"
    unfolding run_append by (intro run_mono run_keeps_zero z)
  have b: "current (portfolio_cls (fst (run_cls opc (initial_state_cls t, stc))))
     \<le> current (portfolio_cls (fst (run_cls (opc @ opc') (initial_state_cls t, stc))))"
    unfolding run_cls_append by (intro run_cls_mono run_cls_keeps_zero zc)
  have c: "btcBalance (portfolio (fst (run (map (\<lambda>(now, u1, u2, u3). Tick now u1 u2 u3) ts) w)))
        \<le> btcBalance (portfolio (fst (run (map (\<lambda>(now, u1, u2, u3). Tick now u1 u2 u3) (ts @ ts')) w)))"
    unfolding map_append run_append by (rule ticks_mono)
  have d: "current (portfolio_cls (fst (run_cls
          (map (\<lambda>(now, u1, u2, u3, u4). Tick_cls now u1 u2 u3 u4) tc) wc)))
        \<le> current (portfolio_cls (fst (run_cls
          (map (\<lambda>(now, u1, u2, u3, u4). Tick_cls now u1 u2 u3 u4) (tc @ tc')) wc)))"
    unfolding map_append run_cls_append by (rule ticks_cls_mono)
  from a b c d show ?thesis
    by (simp add: addTransaction_balance simulateTrade_balance)
qed

theorem C4_balance_monotone_witness:
  "sorted (map fst ([(2629746005, 0.9, 0.5, 0.5)] @ [(5259492005, 0.2, 0.5, 0.5)] :: (int \<times> real \<times> real \<times> real) list)) \<and>
   btcBalance (portfolio (fst (run (map (\<lambda>(now, u1, u2, u3). Tick now u1 u2 u3) [(2629746005, 0.9, 0.5, 0.5)])
       (snd (deposit (Num 1) 5 (initial_state 0, empty_storage)))))) = 1.013 \<and>
   btcBalance (portfolio (fst (run (map (\<lambda>(now, u1, u2, u3). Tick now u1 u2 u3) [(2629746005, 0.9, 0.5, 0.5)])
       (snd (deposit (Num 1) 5 (initial_state 0, empty_storage))))))
     \<le> btcBalance (portfolio (fst (run (map (\<lambda>(now, u1, u2, u3). Tick now u1 u2 u3)
          ([(2629746005, 0.9, 0.5, 0.5)] @ [(5259492005, 0.2, 0.5, 0.5)]))
       (snd (deposit (Num 1) 5 (initial_state 0, empty_storage)))))) \<and>
   btcBalance (portfolio (fst (run [Deposit (Num 1) 5] (initial_state 0, empty_storage))))
     \<le> btcBalance (portfolio (fst (run ([Deposit (Num 1) 5] @ [Tick 2629746005 0.9 0.5 0.5, Deposit (Num 2) 2629746006])
           (initial_state 0, empty_storage))))"
proof -
  let ?w = "snd (deposit (Num 1) 5 (initial_state 0, empty_storage))"
  note t = C4_balance_monotone [where w = ?w and ts = "[(2629746005, 0.9, 0.5, 0.5)]"
      and ts' = "[(5259492005, 0.2, 0.5, 0.5)]" and ops = "[Deposit (Num 1) 5]"
      and ops' = "[Tick 2629746005 0.9 0.5 0.5, Deposit (Num 2) 2629746006]" and t = 0
      and st = empty_storage]
  have s: "sorted (map fst ([(2629746005, 0.9, 0.5, 0.5)] @ [(5259492005, 0.2, 0.5, 0.5)]
      :: (int \<times> real \<times> real \<times> real) list))"
    by simp
  have h: "active (bot (fst ?w))" "btcBalance (portfolio (fst ?w)) = 1"
    by (simp_all add: deposit_one_state)
  have g: "growth 2629746005 (fst ?w) = 0.013"
    by (simp add: growth_def monthsElapsed_def DAYS_PER_MONTH_def deposit_one_state)
  have v: "btcBalance (portfolio (fst (run (map (\<lambda>(now, u1, u2, u3). Tick now u1 u2 u3)
      [(2629746005, 0.9, 0.5, 0.5)]) ?w))) = 1.013"
    by (simp add: run_def updatePortfolio_balance g h SATOSHI_THRESHOLD_def)
  show ?thesis using t s v by blast
qed

text \<open>
  Claim C5. After any sequence of deposits and ticks from the initial state the history
  holds at most 100 snapshots and the trade log at most 100 records (50 in the class
  variant). A log that is full loses its oldest entry to the new one: the history and the
  class variant's trade log drop their head and append at the end, the trade log of
  version 1.01 puts the new record in front and drops its last one.
\<close>

theorem C5_log_bounds:
  "length (history (portfolio (fst (run ops (initial_state t, st))))) \<le> 100 \<and>
   length (trades (portfolio (fst (run ops (initial_state t, st))))) \<le> 100 \<and>
   length (history_cls (portfolio_cls (fst (run_cls opc (initial_state_cls t, stc))))) \<le> 100 \<and>
   length (trades_cls (portfolio_cls (fst (run_cls opc (initial_state_cls t, stc))))) \<le> 50 \<and>
   (length (trades (portfolio (fst w))) < 100 \<longrightarrow>
      trades (portfolio (fst (addTransaction ty amount now u w))) =
        \<lparr>tx_id = now, tx_time = now, tx_type = ty, tx_amount = amount,
          tx_profit = (if ty = ''trade'' then Some (u > 0.4) else None)\<rparr>
          # trades (portfolio (fst w))) \<and>
   (length (trades (portfolio (fst w))) = 100 \<longrightarrow>
      trades (portfolio (fst (addTransaction ty amount now u w))) =
        \<lparr>tx_id = now, tx_time = now, tx_type = ty, tx_amount = amount,
          tx_profit = (if ty = ''trade'' then Some (u > 0.4) else None)\<rparr>
          # butlast (trades (portfolio (fst w)))) \<and>
   (length (trades_cls (portfolio_cls (fst wc))) < 50 \<longrightarrow>
      trades_cls (portfolio_cls (fst (simulateTrade ty amount now u wc))) =
        trades_cls (portfolio_cls (fst wc))
          @ [\<lparr>t_time = now, t_type = ty, t_amount = amount, t_profit = (u > 0.4)\<rparr>]) \<and>
   (length (trades_cls (portfolio_cls (fst wc))) = 50 \<longrightarrow>
      trades_cls (portfolio_cls (fst (simulateTrade ty amount now u wc))) =
        tl (trades_cls (portfolio_cls (fst wc)))
          @ [\<lparr>t_time = now, t_type = ty, t_amount = amount, t_profit = (u > 0.4)\<rparr>]) \<and>
   (active (bot (fst w)) \<and> 0 < btcBalance (portfolio (fst w))
      \<and> SATOSHI_THRESHOLD < growth now (fst w) \<longrightarrow>
      history (portfolio (fst (updatePortfolio now u1 u2 u3 w))) =
        (if length (history (portfolio (fst w))) < 100 then history (portfolio (fst w))
         else tl (history (portfolio (fst w))))
        @ [\<lparr>pt_time = now, pt_value = btcBalance (portfolio (fst w)) + growth now (fst w)\<rparr>]) \<and>
   (botActive (fst wc) \<and> 0 < current (portfolio_cls (fst wc))
      \<and> growth_cls now (fst wc) = Num g \<and> 0.00000001 < g \<longrightarrow>
      history_cls (portfolio_cls (fst (startBot now u1 u2 u3 u4 wc))) =
        (if length (history_cls (portfolio_cls (fst wc))) < 100
         then history_cls (portfolio_cls (fst wc))
         else tl (history_cls (portfolio_cls (fst wc))))
        @ [\<lparr>pt_time = now, pt_value = current (portfolio_cls (fst wc)) + g\<rparr>])"
proof -
  have i: "length (history (portfolio (fst (initial_state t, st)))) \<le> 100
      \<and> length (trades (portfolio (fst (initial_state t, st)))) \<le> 100"
    by (simp add: initial_state_def)
  have ic: "length (history_cls (portfolio_cls (fst (initial_state_cls t, stc)))) \<le> 100
      \<and> length (trades_cls (portfolio_cls (fst (initial_state_cls t, stc)))) \<le> 50"
    by (simp add: initial_state_cls_def)
  show ?thesis
    using run_bounds [OF i, of ops] run_cls_bounds [OF ic, of opc]
      addTransaction_room [of w ty amount now u] addTransaction_full [of w ty amount now u]
      simulateTrade_room [of wc ty amount now u] simulateTrade_full [of wc ty amount now u]
      updatePortfolio_history [of w now u1 u2 u3] startBot_history [of wc now g u1 u2 u3 u4]
    by blast
qed

theorem C5_log_bounds_witness:
  "length (trades (portfolio (fst
      (\<lparr>currency = ''BTC'',
        portfolio = \<lparr>btcBalance = 1, eurBalance = 45000, initialBtc = 1, history = [],
          trades = replicate 100
            \<lparr>tx_id = 1, tx_time = 1, tx_type = ''deposit'', tx_amount = 1, tx_profit = None\<rparr>\<rparr>,
        bot = \<lparr>active = True, monthlyReturn = 0.013, lastUpdate = 1\<rparr>\<rparr>, empty_storage)))) = 100 \<and>
   trades (portfolio (fst (addTransaction ''trade'' 2 7 0.5
      (\<lparr>currency = ''BTC'',
        portfolio = \<lparr>btcBalance = 1, eurBalance = 45000, initialBtc = 1, history = [],
          trades = replicate 100
            \<lparr>tx_id = 1, tx_time = 1, tx_type = ''deposit'', tx_amount = 1, tx_profit = None\<rparr>\<rparr>,
        bot = \<lparr>active = True, monthlyReturn = 0.013, lastUpdate = 1\<rparr>\<rparr>, empty_storage))))
     = \<lparr>tx_id = 7, tx_time = 7, tx_type = ''trade'', tx_amount = 2, tx_profit = Some True\<rparr>
       # replicate 99
           \<lparr>tx_id = 1, tx_time = 1, tx_type = ''deposit'', tx_amount = 1, tx_profit = None\<rparr> \<and>
   length (history (portfolio (fst (run [Deposit (Num 1) 5, Tick 2629746005 0.9 0.5 0.5]
      (initial_state 0, empty_storage))))) \<le> 100 \<and>
   length (trades_cls (portfolio_cls (fst (run_cls [Deposit_cls (Num 1) 5 0.5]
      (initial_state_cls 0, empty_storage_cls))))) \<le> 50"
proof -
  let ?tx = "\<lparr>tx_id = 1, tx_time = 1, tx_type = ''deposit'', tx_amount = 1, tx_profit = None\<rparr>"
  let ?w = "(\<lparr>currency = ''BTC'',
        portfolio = \<lparr>btcBalance = 1, eurBalance = 45000, initialBtc = 1, history = [],
          trades = replicate 100 ?tx\<rparr>,
        bot = \<lparr>active = True, monthlyReturn = 0.013, lastUpdate = 1\<rparr>\<rparr>, empty_storage)"
  note t = C5_log_bounds [where w = ?w and ty = "''trade''" and amount = 2 and now = 7
      and u = "0.5" and ops = "[Deposit (Num 1) 5, Tick 2629746005 0.9 0.5 0.5]" and t = 0
      and st = empty_storage and opc = "[Deposit_cls (Num 1) 5 0.5]" and stc = empty_storage_cls]
  have l: "length (trades (portfolio (fst ?w))) = 100" by simp
  have b: "butlast (replicate 100 ?tx) = replicate 99 ?tx"
    by (simp add: butlast_conv_take)
  have e: "trades (portfolio (fst (addTransaction ''trade'' 2 7 0.5 ?w)))
     = \<lparr>tx_id = 7, tx_time = 7, tx_type = ''trade'', tx_amount = 2, tx_profit = Some True\<rparr>
       # replicate 99 ?tx"
    using t l b by simp
  show ?thesis using t l e by blast
qed

text \<open>
  Claim C6. A deposit of an amount that is not a number (\<^verbatim>\<open>NaN\<close>) or is \<open>\<le> 0\<close> is
  rejected (\<open>AnomCAT.deposit\<close> returns \<^verbatim>\<open>false\<close>, \<open>handleDeposit\<close> raises its alert) and
  leaves the whole engine state and the store unchanged.
\<close>

theorem C6_invalid_deposit_rejected:
  "deposit NaN now w = (False, w) \<and>
   (x \<le> 0 \<longrightarrow> deposit (Num x) now w = (False, w)) \<and>
   handleDeposit NaN now u wc = (Some ''Please enter a valid BTC amount'', wc) \<and>
   (x \<le> 0 \<longrightarrow> handleDeposit (Num x) now u wc = (Some ''Please enter a valid BTC amount'', wc))"
  by (simp add: deposit_invalid handleDeposit_invalid)

theorem C6_invalid_deposit_rejected_witness:
  "(-1::real) \<le> 0 \<and>
   deposit NaN 7 (initial_state 0, empty_storage) = (False, (initial_state 0, empty_storage)) \<and>
   deposit (Num (-1)) 7 (initial_state 0, empty_storage) = (False, (initial_state 0, empty_storage)) \<and>
   handleDeposit (Num (-1)) 7 0.5 (initial_state_cls 0, empty_storage_cls)
     = (Some ''Please enter a valid BTC amount'', (initial_state_cls 0, empty_storage_cls))"
  using C6_invalid_deposit_rejected [of 7 "(initial_state 0, empty_storage)" "-1" "0.5"
      "(initial_state_cls 0, empty_storage_cls)"]
  by simp







text \<open>
  Claim C9, as amended. A valid \<open>AnomCAT.deposit\<close> puts a record of type \<^verbatim>\<open>'deposit'\<close> with
  the deposited amount and the profit \<^verbatim>\<open>null\<close> at the front of the trade log;
  \<open>addTransaction\<close> gives a random profit label to records of type \<^verbatim>\<open>'trade'\<close> only, as the
  tick logs them. The class variant's \<open>handleDeposit\<close> logs a simulated \<^verbatim>\<open>'BUY'\<close> trade of a
  tenth of the amount instead, with a randomly assigned profit label.
\<close>

theorem C9_deposit_record:
  "(0 < d \<longrightarrow>
      trades (portfolio (fst (snd (deposit (Num d) now w)))) =
        \<lparr>tx_id = now, tx_time = now, tx_type = ''deposit'', tx_amount = d, tx_profit = None\<rparr>
          # take 99 (trades (portfolio (fst w)))) \<and>
   hd (trades (portfolio (fst (addTransaction ty amount now u w)))) =
     \<lparr>tx_id = now, tx_time = now, tx_type = ty, tx_amount = amount,
       tx_profit = (if ty = ''trade'' then Some (u > 0.4) else None)\<rparr> \<and>
   (active (bot (fst w)) \<and> 0 < btcBalance (portfolio (fst w))
      \<and> SATOSHI_THRESHOLD < growth now (fst w) \<and> 0.7 < u1 \<longrightarrow>
      trades (portfolio (fst (updatePortfolio now u1 u2 u3 w))) =
        \<lparr>tx_id = now, tx_time = now, tx_type = ''trade'',
          tx_amount = (btcBalance (portfolio (fst w)) + growth now (fst w)) * (u2 * 0.05 + 0.01),
          tx_profit = Some (u3 > 0.4)\<rparr>
          # take 99 (trades (portfolio (fst w)))) \<and>
   (0 < d \<longrightarrow>
      trades_cls (portfolio_cls (fst (snd (handleDeposit (Num d) now u wc)))) =
        (let ts = trades_cls (portfolio_cls (fst wc))
                    @ [\<lparr>t_time = now, t_type = ''BUY'', t_amount = d * 0.1, t_profit = (u > 0.4)\<rparr>]
         in if length ts > 50 then tl ts else ts))"
  using deposit_valid_trades [of d now w] addTransaction_hd [of ty amount now u w]
    updatePortfolio_trade [of w now u1 u2 u3] handleDeposit_valid_trades [of d now u wc]
  by blast

theorem C9_deposit_record_witness:
  "(0::real) < 1 \<and>
   trades (portfolio (fst (snd (deposit (Num 1) 5 (initial_state 0, empty_storage)))))
     = [\<lparr>tx_id = 5, tx_time = 5, tx_type = ''deposit'', tx_amount = 1, tx_profit = None\<rparr>] \<and>
   trades_cls (portfolio_cls (fst (snd (handleDeposit (Num 1) 5 0.5
       (initial_state_cls 0, empty_storage_cls)))))
     = [\<lparr>t_time = 5, t_type = ''BUY'', t_amount = 0.1, t_profit = True\<rparr>]"
proof -
  have p: "(0::real) < 1" by simp
  show ?thesis
    using p C9_deposit_record [where d = 1 and now = 5 and w = "(initial_state 0, empty_storage)"
        and u = "0.5" and wc = "(initial_state_cls 0, empty_storage_cls)"]
    by (simp add: initial_state_def initial_state_cls_def)
qed

text \<open>
  The claim as stated fails on the class variant: the record a deposit of \<open>1\<close> logs is not
  of kind deposit, does not record the amount \<open>1\<close>, and carries a label that follows the
  random draw.
\<close>

theorem C9_class_deposit_counterexample:
  "t_type (last (trades_cls (portfolio_cls (fst (snd (handleDeposit (Num 1) 5 0.5
       (initial_state_cls 0, empty_storage_cls))))))) \<noteq> ''deposit'' \<and>
   t_amount (last (trades_cls (portfolio_cls (fst (snd (handleDeposit (Num 1) 5 0.5
       (initial_state_cls 0, empty_storage_cls))))))) \<noteq> 1 \<and>
   t_profit (last (trades_cls (portfolio_cls (fst (snd (handleDeposit (Num 1) 5 0.5
       (initial_state_cls 0, empty_storage_cls))))))) = True \<and>
   t_profit (last (trades_cls (portfolio_cls (fst (snd (handleDeposit (Num 1) 5 0.3
       (initial_state_cls 0, empty_storage_cls))))))) = False \<and>
   trades_cls (portfolio_cls (fst (snd (handleDeposit (Num 1) 5 0.5
       (initial_state_cls 0, empty_storage_cls)))))
     = [\<lparr>t_time = 5, t_type = ''BUY'', t_amount = 0.1, t_profit = True\<rparr>]"
  by (simp add: handleDeposit_valid_fst initial_state_cls_def)



end
